theory Spec2Isabelle
  imports
    Complex_Main
    "HOL-Library.Sublist"
    "HOL-Library.Char_ord"
    "HOL-Library.List_Lexorder"
    "HOL-Library.Multiset"
begin

section \<open>Port inspection dashboard: the model of \<^verbatim>\<open>dashboard.py\<close>\<close>

text \<open>
  The dashboard is one Python script: two spreadsheet loaders and \<^verbatim>\<open>main\<close>, which
  filters the authority table by the selected port, extracts keywords from the selected
  vessel's deficiency texts, matches them against the port's phrases and hands the
  filtered rows to the chart, word cloud, metrics, table and CSV export.

  Conventions of the model.
  \<^item> A Python \<^verbatim>\<open>str\<close> is a \<^typ>\<open>string\<close>; case folding is that of the ASCII letters
    (characters outside \<^verbatim>\<open>A-Z\<close> are left as they are).
  \<^item> A table is the list of its rows in source order; a row is a record of the cells
    the script reads. Cells of the authority table are present and of their column's
    type (text, text, number); cells of the ship table may be missing (\<open>None\<close>),
    which is what \<^verbatim>\<open>dropna()\<close> removes.
  \<^item> A score is a rational number: the finite values of a float, compared as the
    floats are.
  \<^item> What the third-party libraries compute from scratch (keyword extraction, the
    default sort of pandas, the text of a number or of a timestamp) is a parameter,
    collected in the record \<open>library\<close>; what they do with the script's arguments
    by their documented contract (selection by a mask, \<^verbatim>\<open>nlargest\<close>,
    \<^verbatim>\<open>str.contains\<close>, \<^verbatim>\<open>to_csv\<close>) is written out.
\<close>

subsection \<open>Python strings\<close>

text \<open>\<^verbatim>\<open>str.lower()\<close> on ASCII text.\<close>

definition lower_char :: "char \<Rightarrow> char" where
  "lower_char c =
     (if CHR ''A'' \<le> c \<and> c \<le> CHR ''Z'' then char_of (of_char c + (32::nat)) else c)"

definition lower :: "string \<Rightarrow> string" where
  "lower s = map lower_char s"

text \<open>\<^verbatim>\<open>needle in haystack\<close> on strings: the needle occurs at some position.\<close>

fun py_in :: "string \<Rightarrow> string \<Rightarrow> bool" where
  "py_in needle [] = (needle = [])"
| "py_in needle (c # cs) = (prefix needle (c # cs) \<or> py_in needle cs)"

text \<open>\<^verbatim>\<open>sep.join(parts)\<close>.\<close>

fun join :: "string \<Rightarrow> string list \<Rightarrow> string" where
  "join sep [] = []"
| "join sep [p] = p"
| "join sep (p # q # ps) = p @ sep @ join sep (q # ps)"

subsection \<open>The two tables\<close>

type_synonym timestamp = int

record authority_record =
  Authority :: string
  Date :: timestamp
  Phrase :: string
  TF_IDF_Score :: rat

text \<open>
  The authority table: its rows, and whether the spreadsheet has a \<^verbatim>\<open>Date\<close> column
  (the only column whose presence the script tests; the field \<open>Date\<close> of a row is
  read only when it has).
\<close>

record authority_frame =
  has_Date :: bool
  authority_rows :: "authority_record list"

record ship_record =
  Vessel_Name :: "string option"
  Nature_of_deficiency :: "string option"

record ship_frame =
  has_Vessel_Name :: bool
  has_Nature_of_deficiency :: bool
  ship_records :: "ship_record list"

subsection \<open>Filter layer: the port filter\<close>

text \<open>\<^verbatim>\<open>df[mask]\<close>: the rows at which the boolean mask holds, in source order.\<close>

definition boolean_index :: "'a list \<Rightarrow> bool list \<Rightarrow> 'a list" where
  "boolean_index rows keep = map fst (filter snd (zip rows keep))"

text \<open>\<^verbatim>\<open>sorted(df["Authority"].unique())\<close>: the options of the port selector.\<close>

definition ports :: "authority_record list \<Rightarrow> string list" where
  "ports df = sort (remdups (map Authority df))"

text \<open>\<^verbatim>\<open>filtered_df = df[df["Authority"] == selected_port]\<close>.\<close>

definition filter_by_authority :: "authority_record list \<Rightarrow> string \<Rightarrow> authority_record list" where
  "filter_by_authority df selected_port =
     boolean_index df (map (\<lambda>r. Authority r = selected_port) df)"

subsection \<open>Keyword matcher\<close>

text \<open>
  \<^verbatim>\<open>ships = sorted(ship_df['Vessel Name'].dropna().unique())\<close>: the options of the
  vessel selector.
\<close>

definition ships :: "ship_record list \<Rightarrow> string list" where
  "ships ship_df = sort (remdups (List.map_filter Vessel_Name ship_df))"

text \<open>
  \<^verbatim>\<open>ship_rows = ship_df[ship_df['Vessel Name'] == selected_ship]\<close>; a missing name
  equals no selection.
\<close>

definition ship_rows :: "ship_record list \<Rightarrow> string \<Rightarrow> ship_record list" where
  "ship_rows ship_df selected_ship =
     boolean_index ship_df (map (\<lambda>r. Vessel_Name r = Some selected_ship) ship_df)"

text \<open>\<^verbatim>\<open>past_deficiencies = ship_rows['Nature of deficiency'].dropna().astype(str)\<close>.\<close>

definition past_deficiencies :: "ship_record list \<Rightarrow> string list" where
  "past_deficiencies rows = List.map_filter Nature_of_deficiency rows"

text \<open>
  \<^verbatim>\<open>combined_text = " ".join([t for t in past_deficiencies if t.lower() != "nil"])\<close>.
\<close>

definition combined_text :: "string list \<Rightarrow> string" where
  "combined_text deficiencies = join '' '' (filter (\<lambda>t. lower t \<noteq> ''nil'') deficiencies)"

text \<open>
  Keyword extraction is the library's (\<^verbatim>\<open>rake_nltk\<close>): the three calls
  \<^verbatim>\<open>Rake()\<close>, \<^verbatim>\<open>extract_keywords_from_text(combined_text)\<close> and
  \<^verbatim>\<open>get_ranked_phrases_with_scores()\<close> are one function from the text to the list of
  (score, phrase) pairs, a parameter of the model. The library documents the list as
  ranked, highest score first, and gives no phrase for a text with no words; a theorem
  that needs one of the two facts has it as a hypothesis.
\<close>

type_synonym rake = "string \<Rightarrow> (rat \<times> string) list"

definition ranked_desc :: "(rat \<times> string) list \<Rightarrow> bool" where
  "ranked_desc ranked = sorted_wrt (\<lambda>a b. fst a \<ge> fst b) ranked"

text \<open>\<^verbatim>\<open>top_keywords = [phrase for score, phrase in ranked_phrases[:10]]\<close>.\<close>

definition top_keywords :: "(rat \<times> string) list \<Rightarrow> string list" where
  "top_keywords ranked_phrases = map snd (take 10 ranked_phrases)"

text \<open>
  The keywords of the selected vessel: lines 92 to 100 of the script in one function.
\<close>

definition vessel_keywords :: "rake \<Rightarrow> ship_record list \<Rightarrow> string \<Rightarrow> string list" where
  "vessel_keywords rake_extract ship_df selected_ship =
     top_keywords (rake_extract (combined_text (past_deficiencies (ship_rows ship_df selected_ship))))"

text \<open>\<^verbatim>\<open>authority_phrases = filtered_df['Phrase'].str.lower().tolist()\<close>.\<close>

definition authority_phrases :: "authority_record list \<Rightarrow> string list" where
  "authority_phrases filtered_df = map (\<lambda>r. lower (Phrase r)) filtered_df"

text \<open>
  The nested loop that fills \<^verbatim>\<open>matched_table\<close>: the inner loop over the authority
  phrases for one keyword, and the outer loop over the keywords. A row of the table is
  the pair (Matched Keyword, Port Phrase); the port phrase recorded is the lower-cased
  one.
\<close>

fun match_phrases :: "string \<Rightarrow> string list \<Rightarrow> (string \<times> string) list" where
  "match_phrases kw [] = []"
| "match_phrases kw (phrase # phrases) =
     (if py_in (lower kw) phrase then [(kw, phrase)] else []) @ match_phrases kw phrases"

fun match_keywords :: "string list \<Rightarrow> string list \<Rightarrow> (string \<times> string) list" where
  "match_keywords [] phrases = []"
| "match_keywords (kw # kws) phrases = match_phrases kw phrases @ match_keywords kws phrases"

definition matched_table :: "string list \<Rightarrow> authority_record list \<Rightarrow> (string \<times> string) list" where
  "matched_table keywords filtered_df = match_keywords keywords (authority_phrases filtered_df)"

text \<open>
  \<^verbatim>\<open>matched_keywords = list({row['Matched Keyword'] for row in matched_table})\<close>: a
  Python set, whose iteration order is not fixed; the banner joins
  \<^verbatim>\<open>set(matched_keywords)\<close>, so it is modelled as receiving the set.
\<close>

definition matched_keywords :: "(string \<times> string) list \<Rightarrow> string set" where
  "matched_keywords table = set (map fst table)"

text \<open>
  The specification's notion: \<open>kw\<close> is a case-insensitive substring of \<open>phrase\<close>
  (\<^const>\<open>sublist\<close> is the contiguous one).
\<close>

definition ci_substring :: "string \<Rightarrow> string \<Rightarrow> bool" where
  "ci_substring kw phrase = sublist (lower kw) (lower phrase)"

text \<open>The text handed to the extractor for the selected vessel (lines 92 to 94).\<close>

definition vessel_text :: "ship_record list \<Rightarrow> string \<Rightarrow> string" where
  "vessel_text ship_df selected_ship =
     combined_text (past_deficiencies (ship_rows ship_df selected_ship))"

subsection \<open>The libraries as parameters\<close>

text \<open>
  The parts of the third-party libraries that the model takes as parameters:
  \<^item> the keyword extractor;
  \<^item> \<^verbatim>\<open>sort_values(ascending=False)\<close> of pandas with its default sort kind, on the
    scores of a table: the rows in descending order of score; the default kind is not
    a stable sort, so the order among rows of equal score is the library's;
  \<^item> the text that \<^verbatim>\<open>to_csv\<close> writes for a score and for a timestamp.
\<close>

record library =
  lib_rake :: rake
  lib_sort_values_desc :: "authority_record list \<Rightarrow> authority_record list"
  lib_float_text :: "rat \<Rightarrow> string"
  lib_timestamp_text :: "timestamp \<Rightarrow> string"

subsection \<open>Presentation layer: the top phrases\<close>

text \<open>
  \<^verbatim>\<open>filtered_df.nlargest(top_n, "TF-IDF Score")\<close>, with the default \<^verbatim>\<open>keep='first'\<close>:
  the first \<open>n\<close> rows of the table ordered by score, highest first. When the table
  has more than \<open>n\<close> rows pandas selects the rows up to the \<open>n\<close>-th largest score and
  orders them with a stable merge sort, first occurrences first: the first \<open>n\<close> rows of
  the stable sort on the negated score. Otherwise it returns
  \<^verbatim>\<open>sort_values(ascending=False).head(n)\<close>.
\<close>

definition nlargest :: "library \<Rightarrow> nat \<Rightarrow> authority_record list \<Rightarrow> authority_record list" where
  "nlargest lib n df =
     (if n \<ge> length df then take n (lib_sort_values_desc lib df)
      else take n (sort_key (\<lambda>r. - TF_IDF_Score r) df))"

subsection \<open>Filter layer: the phrase search\<close>

text \<open>
  \<^verbatim>\<open>filtered_df['Phrase'].str.contains(search_term, case=False)\<close>. The call leaves
  \<^verbatim>\<open>regex\<close> at its default \<^verbatim>\<open>True\<close>: pandas compiles the search term with
  \<^verbatim>\<open>re.compile(pat, flags=re.IGNORECASE)\<close> and keeps the rows at which
  \<^verbatim>\<open>regex.search(phrase)\<close> finds a match.

  The model covers a fragment of the syntax of Python's \<^verbatim>\<open>re\<close>:
  \<^item> a character that is not one of the special characters
    \<^verbatim>\<open>. ^ $ * + ? { } [ ] \ | ( )\<close> matches itself, in either case;
  \<^item> \<^verbatim>\<open>.\<close> matches any character but a newline;
  \<^item> a pattern of such characters and at least one \<^verbatim>\<open>(\<close> does not compile
    (\<^verbatim>\<open>re.error\<close>: missing ), unterminated subpattern);
  \<^item> any other pattern is outside the fragment: the model says nothing about it, which
    the value \<open>Pattern_not_modelled\<close> marks.
\<close>

datatype py_exception = Re_error | Value_error | Pattern_not_modelled

datatype re_item = Lit char | Any_char

definition re_special :: "char set" where
  "re_special = set (''.^$*+?{}[]|()'' @ [CHR 0x5C])"

definition re_compile :: "string \<Rightarrow> py_exception + re_item list" where
  "re_compile pat =
     (if \<forall>c \<in> set pat. c \<notin> re_special \<or> c = CHR ''.''
        then Inr (map (\<lambda>c. if c = CHR ''.'' then Any_char else Lit c) pat)
      else if \<forall>c \<in> set pat. c \<notin> re_special \<or> c = CHR ''.'' \<or> c = CHR ''(''
        then Inl Re_error
      else Inl Pattern_not_modelled)"

fun item_matches :: "re_item \<Rightarrow> char \<Rightarrow> bool" where
  "item_matches (Lit c) d = (lower_char c = lower_char d)"
| "item_matches Any_char d = (d \<noteq> CHR 0x0A)"

text \<open>The pattern matches at the start of the text (\<^verbatim>\<open>regex.match\<close>).\<close>

fun re_match :: "re_item list \<Rightarrow> string \<Rightarrow> bool" where
  "re_match [] s = True"
| "re_match (i # items) [] = False"
| "re_match (i # items) (d # ds) = (item_matches i d \<and> re_match items ds)"

text \<open>The pattern matches at some position of the text (\<^verbatim>\<open>regex.search\<close>).\<close>

fun re_search :: "re_item list \<Rightarrow> string \<Rightarrow> bool" where
  "re_search items [] = re_match items []"
| "re_search items (d # ds) = (re_match items (d # ds) \<or> re_search items ds)"

text \<open>
  Lines 192 to 195: an empty search term is falsy and leaves the table as it is;
  otherwise the rows are selected by the mask of \<^verbatim>\<open>str.contains\<close>, or the exception
  of the compilation propagates.
\<close>

definition search_filter ::
  "string \<Rightarrow> authority_record list \<Rightarrow> py_exception + authority_record list" where
  "search_filter search_term filtered_df =
     (if search_term \<noteq> [] then
        (case re_compile search_term of
           Inl e \<Rightarrow> Inl e
         | Inr regex \<Rightarrow>
             Inr (boolean_index filtered_df (map (\<lambda>r. re_search regex (Phrase r)) filtered_df)))
      else Inr filtered_df)"

subsection \<open>Presentation layer: the CSV export\<close>

text \<open>
  \<^verbatim>\<open>filtered_df.to_csv(index=False)\<close> with the defaults of pandas: a header line and one
  line per row, fields separated by commas, lines ended by a line feed; a field is
  quoted when it holds a comma, a double quote, a line feed or a carriage return (as
  the \<^verbatim>\<open>csv\<close> module of current Python does, whatever the line terminator), and a
  double quote inside a quoted field is doubled (\<^verbatim>\<open>QUOTE_MINIMAL\<close>). The columns are
  those of the data model, in its order; the Date column is written when the table has
  it.
\<close>

definition needs_quoting :: "string \<Rightarrow> bool" where
  "needs_quoting field = (\<exists>c \<in> set field. c \<in> {CHR '','', CHR 0x22, CHR 0x0A, CHR 0x0D})"

definition csv_field :: "string \<Rightarrow> string" where
  "csv_field field =
     (if needs_quoting field
      then [CHR 0x22] @ concat (map (\<lambda>c. if c = CHR 0x22 then [c, c] else [c]) field) @ [CHR 0x22]
      else field)"

definition csv_line :: "string list \<Rightarrow> string" where
  "csv_line cells = join '','' (map csv_field cells) @ [CHR 0x0A]"

definition csv_columns :: "bool \<Rightarrow> string list" where
  "csv_columns with_date =
     [''Authority''] @ (if with_date then [''Date''] else []) @ [''Phrase'', ''TF-IDF Score'']"

definition csv_cells :: "library \<Rightarrow> bool \<Rightarrow> authority_record \<Rightarrow> string list" where
  "csv_cells lib with_date r =
     [Authority r] @ (if with_date then [lib_timestamp_text lib (Date r)] else [])
       @ [Phrase r, lib_float_text lib (TF_IDF_Score r)]"

definition to_csv :: "library \<Rightarrow> bool \<Rightarrow> authority_record list \<Rightarrow> string" where
  "to_csv lib with_date rows =
     concat (map csv_line (csv_columns with_date # map (csv_cells lib with_date) rows))"

text \<open>
  \<^verbatim>\<open>datetime.now().strftime('%Y%m%d')\<close>: the date of the pass is an input; years have
  four digits.
\<close>

record datetime =
  year :: nat
  month :: nat
  day :: nat

definition digit :: "nat \<Rightarrow> char" where
  "digit n = char_of (48 + n mod 10)"

definition strftime_Ymd :: "datetime \<Rightarrow> string" where
  "strftime_Ymd t =
     [digit (year t div 1000), digit (year t div 100), digit (year t div 10), digit (year t),
      digit (month t div 10), digit (month t), digit (day t div 10), digit (day t)]"

definition file_name :: "string \<Rightarrow> datetime \<Rightarrow> string" where
  "file_name selected_port today =
     ''port_inspection_data_'' @ selected_port @ ''_'' @ strftime_Ymd today @ ''.csv''"

subsection \<open>Presentation layer: word cloud and metrics\<close>

text \<open>
  \<^verbatim>\<open>dict(zip(filtered_df['Phrase'], filtered_df['TF-IDF Score']))\<close>: a dictionary keeps
  a key at the place of its first insertion, with the value of the last.
\<close>

fun dict_update :: "'k \<Rightarrow> 'v \<Rightarrow> ('k \<times> 'v) list \<Rightarrow> ('k \<times> 'v) list" where
  "dict_update k v [] = [(k, v)]"
| "dict_update k v ((k', v') # d) =
     (if k = k' then (k, v) # d else (k', v') # dict_update k v d)"

definition dict :: "('k \<times> 'v) list \<Rightarrow> ('k \<times> 'v) list" where
  "dict items = fold (\<lambda>(k, v). dict_update k v) items []"

text \<open>
  \<^verbatim>\<open>Series.mean()\<close>, \<^verbatim>\<open>Series.max()\<close> and \<^verbatim>\<open>Series.min()\<close>; on an empty column
  they give no number.
\<close>

definition mean :: "rat list \<Rightarrow> rat option" where
  "mean xs = (if xs = [] then None else Some (sum_list xs / of_nat (length xs)))"

definition column_max :: "'a::linorder list \<Rightarrow> 'a option" where
  "column_max xs = (case xs of [] \<Rightarrow> None | x # ys \<Rightarrow> Some (fold max ys x))"

definition column_min :: "'a::linorder list \<Rightarrow> 'a option" where
  "column_min xs = (case xs of [] \<Rightarrow> None | x # ys \<Rightarrow> Some (fold min ys x))"

definition delta :: "rat option \<Rightarrow> rat option \<Rightarrow> rat option" where
  "delta a b = (case (a, b) of (Some x, Some y) \<Rightarrow> Some (x - y) | _ \<Rightarrow> None)"

subsection \<open>The rendering pass\<close>

text \<open>
  What one run of the script does, in order: the reads of the two spreadsheets and the
  elements it hands to Streamlit, each with the data it is given. An exception that
  nothing catches ends the pass (\<open>Uncaught\<close>). A metric carries its numbers, not their
  two-decimal text; labels are given without their emoji. Of the rendering libraries
  the model has the data they are given and the one exception that an empty table
  raises (the word cloud); how they draw is outside it.
\<close>

datatype effect =
    Read_excel string
  | St_title string
  | St_error string
  | St_sidebar_header string
  | St_sidebar_date_input "timestamp option" "timestamp option"
  | St_sidebar_selectbox string "string list"
  | St_sidebar_markdown string
  | St_sidebar_write string
  | St_sidebar_info string
  | St_sidebar_warning "string set"
  | St_sidebar_dataframe "(string \<times> string) list"
  | St_sidebar_success string
  | St_subheader string
  | St_slider string nat nat nat
  | St_plotly_chart "authority_record list"
  | St_pyplot "(string \<times> rat) list"
  | St_metric string "rat option" "rat option"
  | St_text_input string
  | St_dataframe "authority_record list"
  | St_download_button string string
  | St_markdown string
  | Uncaught py_exception

text \<open>
  The values the widgets return in this pass, the date of the pass, and what reading
  each of the two files gives: the table, or the text of the exception.
\<close>

record inputs =
  date_range :: "timestamp list"
  selected_port :: string
  selected_ship :: string
  top_n :: nat
  search_term :: string
  now :: datetime

record environment =
  authority_xlsx :: "string + authority_frame"
  ship_xlsx :: "string + ship_frame"

definition authority_path :: string where
  "authority_path =
     ''/Users/aryadathankaryadth/PycharmProjects/port-inspection-dashboard/.github/workflows/final.xlsx''"

definition ship_path :: string where
  "ship_path =
     ''/Users/aryadathankaryadth/PycharmProjects/port-inspection-dashboard/.github/workflows/ship data.xlsx''"

text \<open>
  The two loaders (the body that runs when \<^verbatim>\<open>st.cache_data\<close> has no entry): one read;
  an exception is caught, reported with \<^verbatim>\<open>st.error\<close>, and \<^verbatim>\<open>None\<close> is returned.
\<close>

definition load_authority_data :: "environment \<Rightarrow> effect list \<times> authority_frame option" where
  "load_authority_data env =
     (case authority_xlsx env of
        Inr df \<Rightarrow> ([Read_excel authority_path], Some df)
      | Inl e \<Rightarrow>
          ([Read_excel authority_path, St_error (''Error loading authority data: '' @ e)], None))"

definition load_ship_data :: "environment \<Rightarrow> effect list \<times> ship_frame option" where
  "load_ship_data env =
     (case ship_xlsx env of
        Inr ship_df \<Rightarrow> ([Read_excel ship_path], Some ship_df)
      | Inl e \<Rightarrow> ([Read_excel ship_path, St_error (''Error loading ship data: '' @ e)], None))"

text \<open>Lines 69 to 82: the sidebar filters.\<close>

definition sidebar_filters :: "authority_frame \<Rightarrow> effect list" where
  "sidebar_filters df =
     [St_sidebar_header ''Filters'']
     @ (if has_Date df
        then [St_sidebar_date_input (column_min (map Date (authority_rows df)))
                (column_max (map Date (authority_rows df)))]
        else [])
     @ [St_sidebar_selectbox ''Select a Port Authority'' (ports (authority_rows df))]"

text \<open>Lines 87 to 128: the ship check.\<close>

definition ship_check ::
  "library \<Rightarrow> ship_frame \<Rightarrow> authority_record list \<Rightarrow> inputs \<Rightarrow> effect list" where
  "ship_check lib ship_df filtered_df inp =
     [St_sidebar_header ''Ship Check'']
     @ (if has_Vessel_Name ship_df \<and> has_Nature_of_deficiency ship_df then
          (let keywords = vessel_keywords (lib_rake lib) (ship_records ship_df) (selected_ship inp);
               table = matched_table keywords filtered_df
           in [St_sidebar_selectbox ''Select a Ship'' (ships (ship_records ship_df)),
               St_sidebar_markdown ''### Past Issues (Extracted Keywords)'']
              @ (if keywords \<noteq> [] then [St_sidebar_write (join '', '' keywords)]
                 else [St_sidebar_info ''No relevant deficiencies found.''])
              @ (if matched_keywords table \<noteq> {}
                 then [St_sidebar_markdown ''### Attention Required'',
                       St_sidebar_warning (matched_keywords table),
                       St_sidebar_markdown ''#### Matched Deficiencies vs Port Focus'']
                 else [])
              @ (if table \<noteq> [] then [St_sidebar_dataframe table]
                 else [St_sidebar_success
                         ''No major overlaps found with this port's inspection priorities.'']))
        else [])"

text \<open>Lines 133 to 163: the bar chart and the word cloud.\<close>

definition focus_chart :: "library \<Rightarrow> authority_record list \<Rightarrow> inputs \<Rightarrow> effect list" where
  "focus_chart lib filtered_df inp =
     [St_subheader ''Top Inspection Focus Areas'',
      St_slider ''Number of top phrases to show'' 5 20 10,
      St_plotly_chart (nlargest lib (top_n inp) filtered_df)]"

text \<open>
  \<^verbatim>\<open>WordCloud(...).generate_from_frequencies(phrase_dict)\<close> raises \<^verbatim>\<open>ValueError\<close> for a
  dictionary with no word.
\<close>

definition word_cloud :: "authority_record list \<Rightarrow> effect list" where
  "word_cloud filtered_df =
     [St_subheader ''Inspection Word Cloud'']
     @ (let phrase_dict = dict (zip (map Phrase filtered_df) (map TF_IDF_Score filtered_df))
        in if phrase_dict = [] then [Uncaught Value_error] else [St_pyplot phrase_dict])"

text \<open>Lines 166 to 186: the three metrics.\<close>

definition metrics :: "authority_record list \<Rightarrow> authority_record list \<Rightarrow> effect list" where
  "metrics df filtered_df =
     [St_subheader ''Key Metrics'',
      St_metric ''Average TF-IDF Score'' (mean (map TF_IDF_Score filtered_df))
        (delta (mean (map TF_IDF_Score filtered_df)) (mean (map TF_IDF_Score df))),
      St_metric ''Number of Unique Phrases'' (Some (of_nat (length filtered_df))) None,
      St_metric ''Max TF-IDF Score'' (column_max (map TF_IDF_Score filtered_df)) None]"

text \<open>
  Lines 189 to 218: the searchable table, the download button and the footer. The
  button is given the CSV of \<^verbatim>\<open>filtered_df\<close>, the table \<^verbatim>\<open>filtered_data\<close>. An exception
  of the search ends the pass before the table.
\<close>

definition about_text :: string where
  "about_text =
     concat (map (\<lambda>line. CHR 0x0A # ''        '' @ line)
       [''This dashboard provides insights into port authority inspection trends using TF-IDF analysis.'',
        ''- Use the sidebar filters to analyze specific ports'',
        ''- Review ship deficiency overlaps'',
        ''- Download the data for offline analysis''])
     @ CHR 0x0A # ''    ''"

definition data_view ::
  "library \<Rightarrow> bool \<Rightarrow> authority_record list \<Rightarrow> inputs \<Rightarrow> effect list" where
  "data_view lib with_date filtered_df inp =
     [St_subheader ''Detailed Data View'', St_text_input ''Search phrases...'']
     @ (case search_filter (search_term inp) filtered_df of
          Inl e \<Rightarrow> [Uncaught e]
        | Inr filtered_data \<Rightarrow>
            [St_dataframe filtered_data,
             St_download_button (to_csv lib with_date filtered_df)
               (file_name (selected_port inp) (now inp)),
             St_markdown ''---'',
             St_markdown ''### About This Dashboard'',
             St_markdown about_text])"

text \<open>Statements in sequence: what follows an uncaught exception does not run.\<close>

fun is_uncaught :: "effect \<Rightarrow> bool" where
  "is_uncaught (Uncaught e) = True"
| "is_uncaught _ = False"

definition then_run :: "effect list \<Rightarrow> effect list \<Rightarrow> effect list" where
  "then_run first rest = (if list_ex is_uncaught first then first else first @ rest)"

text \<open>
  \<^verbatim>\<open>main\<close>. Both loaders run before the test of their results. The value of the
  date-range picker is bound to \<^verbatim>\<open>date_range\<close> when the table has a Date column, and
  no later line reads it.
\<close>

definition render :: "library \<Rightarrow> authority_frame \<Rightarrow> ship_frame \<Rightarrow> inputs \<Rightarrow> effect list" where
  "render lib df ship_df inp =
     (let date_range = (if has_Date df then Some (date_range inp) else None);
          filtered_df = filter_by_authority (authority_rows df) (selected_port inp)
      in sidebar_filters df
         @ ship_check lib ship_df filtered_df inp
         @ focus_chart lib filtered_df inp
         @ then_run (word_cloud filtered_df)
             (metrics (authority_rows df) filtered_df
              @ data_view lib (has_Date df) filtered_df inp))"

definition main :: "library \<Rightarrow> environment \<Rightarrow> inputs \<Rightarrow> effect list" where
  "main lib env inp =
     [St_title ''Port Authority Inspection Analytics Dashboard'']
     @ (case load_authority_data env of (effects1, df) \<Rightarrow>
        case load_ship_data env of (effects2, ship_df) \<Rightarrow>
          effects1 @ effects2
          @ (case df of
               None \<Rightarrow> []
             | Some df \<Rightarrow>
                 (case ship_df of
                    None \<Rightarrow> []
                  | Some ship_df \<Rightarrow> render lib df ship_df inp)))"





subsection \<open>Reading a CSV text back\<close>

text \<open>
  Modelled from the spec: the reader of the CSV round trip (section 8), which the
  repository does not contain; the script only writes the CSV. The reader is the
  standard one for the dialect that \<^verbatim>\<open>to_csv\<close> writes (the defaults of
  Python's \<^verbatim>\<open>csv\<close> module and of pandas), as a machine that takes one character at a
  time: a field that starts with a double quote runs to the closing quote, a doubled
  quote inside it standing for one; otherwise a field runs to the next comma or line
  end; a line feed or carriage return outside quotes ends the line; blank lines are
  skipped. It gives the fields as text, header line first, and no table when the text
  ends inside a quoted field.
\<close>

datatype csv_mode = Line_start | Field_start | In_unquoted | In_quoted | Quote_seen

type_synonym csv_state = "csv_mode \<times> string \<times> string list \<times> string list list"

fun csv_step :: "csv_state \<Rightarrow> char \<Rightarrow> csv_state" where
  "csv_step (In_quoted, field, row, rows) c =
     (if c = CHR 0x22 then (Quote_seen, field, row, rows)
      else (In_quoted, field @ [c], row, rows))"
| "csv_step (m, field, row, rows) c =
     (if c = CHR '','' then (Field_start, [], row @ [field], rows)
      else if c = CHR 0x0A \<or> c = CHR 0x0D then
        (if m = Line_start then (Line_start, [], [], rows)
         else (Line_start, [], [], rows @ [row @ [field]]))
      else if c = CHR 0x22 then
        (if m = Line_start \<or> m = Field_start then (In_quoted, [], row, rows)
         else if m = Quote_seen then (In_quoted, field @ [c], row, rows)
         else (In_unquoted, field @ [c], row, rows))
      else (In_unquoted, field @ [c], row, rows))"



subsection \<open>Example tables\<close>

text \<open>
  Small tables on which the theorems below are instantiated: an authority table with
  two ports, a table of seven scored phrases with ties, a ship table with a vessel
  that has deficiencies, a vessel whose entries are all nil or missing, and a row
  without a vessel name; a stand-in for the keyword extractor that returns a fixed
  ranked list of eleven phrases for any non-empty text and none for the empty text;
  stand-ins for the text of a score and of a timestamp; and the values of the widgets
  in one pass.
\<close>

definition demo_authority_rows :: "authority_record list" where
  "demo_authority_rows =
    [\<lparr>Authority = ''Kobe'', Date = 19700, Phrase = ''Fire Extinguisher Missing'', TF_IDF_Score = 3 / 4\<rparr>,
     \<lparr>Authority = ''Oslo'', Date = 19701, Phrase = ''life jacket'', TF_IDF_Score = 1 / 2\<rparr>,
     \<lparr>Authority = ''Kobe'', Date = 19702, Phrase = ''Expired life jacket, crew'', TF_IDF_Score = 1 / 4\<rparr>,
     \<lparr>Authority = ''Kobe'', Date = 19703, Phrase = ''oil record book'', TF_IDF_Score = 3 / 4\<rparr>]"

definition demo_ship_records :: "ship_record list" where
  "demo_ship_records =
    [\<lparr>Vessel_Name = Some ''Aurora'', Nature_of_deficiency = Some ''Fire extinguisher missing.''\<rparr>,
     \<lparr>Vessel_Name = Some ''Borealis'', Nature_of_deficiency = Some ''nil''\<rparr>,
     \<lparr>Vessel_Name = Some ''Aurora'', Nature_of_deficiency = Some ''NIL''\<rparr>,
     \<lparr>Vessel_Name = None, Nature_of_deficiency = Some ''Rust on deck''\<rparr>,
     \<lparr>Vessel_Name = Some ''Borealis'', Nature_of_deficiency = None\<rparr>,
     \<lparr>Vessel_Name = Some ''Aurora'', Nature_of_deficiency = Some ''Life jacket expired.''\<rparr>]"

definition demo_rake :: rake where
  "demo_rake text =
     (if text = [] then []
      else [(9, ''fire extinguisher missing''), (9, ''life jacket expired''), (4, ''oil record''),
            (4, ''life jacket''), (4, ''crew list''), (1, ''rust''), (1, ''pump''), (1, ''hatch''),
            (1, ''fire''), (1, ''deck''), (1, ''cargo'')])"


definition demo_lib :: library where
  "demo_lib =
     \<lparr>lib_rake = demo_rake,
      lib_sort_values_desc = sort_key (\<lambda>r. - TF_IDF_Score r),
      lib_float_text = (\<lambda>x. if x = 3 / 4 then ''0.75'' else if x = 1 / 2 then ''0.5'' else ''0.25''),
      lib_timestamp_text = (\<lambda>t. ''2023-12-'' @ [digit (nat (t - 19692) div 10), digit (nat (t - 19692))])\<rparr>"

definition demo_env :: environment where
  "demo_env =
     \<lparr>authority_xlsx = Inr \<lparr>has_Date = True, authority_rows = demo_authority_rows\<rparr>,
      ship_xlsx = Inr \<lparr>has_Vessel_Name = True, has_Nature_of_deficiency = True,
                      ship_records = demo_ship_records\<rparr>\<rparr>"

definition demo_inputs :: inputs where
  "demo_inputs =
     \<lparr>date_range = [19700, 19703], selected_port = ''Kobe'', selected_ship = ''Borealis'',
      top_n = 10, search_term = ''life'', now = \<lparr>year = 2024, month = 3, day = 7\<rparr>\<rparr>"

section \<open>Properties\<close>

subsection \<open>Helper lemmas: strings and masks\<close>


lemma boolean_index_map: "boolean_index rows (map P rows) = filter P rows"
  unfolding boolean_index_def
  by (induction rows) auto

subsection \<open>The port filter\<close>

text \<open>
  Claim C5. For every authority value \<open>A\<close> that the port selector offers, filtering
  the authority table by \<open>A\<close> returns only rows whose Authority field equals \<open>A\<close>,
  and all of them: every row of the table occurs in the result as often as in the
  table when its Authority is \<open>A\<close> and not at all otherwise, the rows keep their
  source order, and the result is not empty.
\<close>

theorem filter_by_authority_exact:
  assumes "A \<in> set (ports df)"
  shows "(\<forall>r \<in> set (filter_by_authority df A). Authority r = A)
       \<and> (\<forall>r. count (mset (filter_by_authority df A)) r
              = (if Authority r = A then count (mset df) r else 0))
       \<and> subseq (filter_by_authority df A) df
       \<and> filter_by_authority df A \<noteq> []"
proof -
  have eq: "filter_by_authority df A = filter (\<lambda>r. Authority r = A) df"
    by (simp add: filter_by_authority_def boolean_index_map)
  from assms obtain r where "r \<in> set df" "Authority r = A"
    by (auto simp: ports_def)
  then have "filter (\<lambda>r. Authority r = A) df \<noteq> []"
    by (auto simp: filter_empty_conv)
  then show ?thesis
    unfolding eq by (auto simp: count_mset)
qed

theorem filter_by_authority_exact_witness:
  "''Kobe'' \<in> set (ports demo_authority_rows)
   \<and> filter_by_authority demo_authority_rows ''Kobe''
       = [demo_authority_rows ! 0, demo_authority_rows ! 2, demo_authority_rows ! 3]
   \<and> subseq (filter_by_authority demo_authority_rows ''Kobe'') demo_authority_rows
   \<and> count (mset (filter_by_authority demo_authority_rows ''Kobe'')) (demo_authority_rows ! 1) = 0"
proof -
  have h: "''Kobe'' \<in> set (ports demo_authority_rows)"
    by code_simp
  have e: "filter_by_authority demo_authority_rows ''Kobe''
       = [demo_authority_rows ! 0, demo_authority_rows ! 2, demo_authority_rows ! 3]"
    by code_simp
  have a: "Authority (demo_authority_rows ! 1) \<noteq> ''Kobe''"
    by code_simp
  note t = filter_by_authority_exact [OF h]
  from t have s: "subseq (filter_by_authority demo_authority_rows ''Kobe'') demo_authority_rows"
    by blast
  from t have "count (mset (filter_by_authority demo_authority_rows ''Kobe'')) (demo_authority_rows ! 1)
      = (if Authority (demo_authority_rows ! 1) = ''Kobe''
         then count (mset demo_authority_rows) (demo_authority_rows ! 1) else 0)"
    by blast
  with a have c: "count (mset (filter_by_authority demo_authority_rows ''Kobe'')) (demo_authority_rows ! 1) = 0"
    by (simp only: if_False)
  from h e s c show ?thesis
    by (intro conjI)
qed

subsection \<open>The keyword matcher: matching\<close>






subsection \<open>The keyword matcher: the retained keywords\<close>

lemma join_Cons: "join sep (p # ps) = p @ concat (map (\<lambda>t. sep @ t) ps)"
  by (induction ps arbitrary: p) auto

lemma past_deficiencies_ship_rows:
  "past_deficiencies (ship_rows ship_df v)
     = [t. r \<leftarrow> ship_df, Vessel_Name r = Some v, Some t \<leftarrow> [Nature_of_deficiency r]]"
  unfolding past_deficiencies_def ship_rows_def boolean_index_map
  by (induction ship_df) (auto simp: List.map_filter_simps split: option.splits)

lemma sorted_wrt_take_drop:
  assumes "sorted_wrt P xs"
  shows "\<forall>a \<in> set (take n xs). \<forall>b \<in> set (drop n xs). P a b"
proof -
  have "sorted_wrt P (take n xs @ drop n xs)"
    using assms by simp
  then show ?thesis
    unfolding sorted_wrt_append by blast
qed

text \<open>
  Claim C2. For every selected vessel: the text handed to the extractor is the
  vessel's deficiency entries that are present and are not "nil" (compared after
  lower-casing, as the script does), in source order, each entry after the first
  preceded by one space; the retained keywords are the phrases of the first ten
  entries of the extractor's ranked (score, phrase) list, so at most ten; and, the
  list being ranked highest score first, the retained scores are in descending order
  and no dropped phrase scores higher than a retained one.
\<close>

theorem vessel_keywords_top10:
  assumes "ranked_desc (rake_extract (vessel_text ship_df v))"
  shows "vessel_text ship_df v
           = (case [t. r \<leftarrow> ship_df, Vessel_Name r = Some v,
                       Some t \<leftarrow> [Nature_of_deficiency r], lower t \<noteq> ''nil''] of
                [] \<Rightarrow> []
              | t # ts \<Rightarrow> t @ concat (map (\<lambda>u. '' '' @ u) ts))
       \<and> vessel_keywords rake_extract ship_df v
           = map snd (take 10 (rake_extract (vessel_text ship_df v)))
       \<and> length (vessel_keywords rake_extract ship_df v)
           = min 10 (length (rake_extract (vessel_text ship_df v)))
       \<and> sorted_wrt (\<ge>) (map fst (take 10 (rake_extract (vessel_text ship_df v))))
       \<and> (\<forall>kept \<in> set (take 10 (rake_extract (vessel_text ship_df v))).
           \<forall>dropped \<in> set (drop 10 (rake_extract (vessel_text ship_df v))).
             fst dropped \<le> fst kept)"
proof -
  let ?ranked = "rake_extract (vessel_text ship_df v)"
  let ?entries = "[t. r \<leftarrow> ship_df, Vessel_Name r = Some v,
                       Some t \<leftarrow> [Nature_of_deficiency r], lower t \<noteq> ''nil'']"
  have entries: "filter (\<lambda>t. lower t \<noteq> ''nil'') (past_deficiencies (ship_rows ship_df v)) = ?entries"
    unfolding past_deficiencies_ship_rows
    by (induction ship_df) (auto split: option.splits)
  have txt_eq: "vessel_text ship_df v
      = (case ?entries of [] \<Rightarrow> [] | t # ts \<Rightarrow> t @ concat (map (\<lambda>u. '' '' @ u) ts))"
    unfolding vessel_text_def combined_text_def entries
    by (cases ?entries) (simp_all only: join.simps join_Cons list.case)
  have kws: "vessel_keywords rake_extract ship_df v = map snd (take 10 ?ranked)"
    by (simp add: vessel_keywords_def top_keywords_def vessel_text_def)
  have len: "length (vessel_keywords rake_extract ship_df v) = min 10 (length ?ranked)"
    unfolding kws by simp
  have srt: "sorted_wrt (\<lambda>a b. fst a \<ge> fst b) ?ranked"
    using assms by (simp add: ranked_desc_def)
  from srt have "sorted_wrt (\<lambda>a b. fst a \<ge> fst b) (take 10 ?ranked)"
    by (rule sorted_wrt_take)
  then have desc: "sorted_wrt (\<ge>) (map fst (take 10 ?ranked))"
    by (simp add: sorted_wrt_map)
  have top: "\<forall>kept \<in> set (take 10 ?ranked). \<forall>dropped \<in> set (drop 10 ?ranked). fst dropped \<le> fst kept"
    using sorted_wrt_take_drop [OF srt, of 10] by simp
  from txt_eq kws len desc top show ?thesis
    by (intro conjI)
qed

theorem vessel_keywords_top10_witness:
  "ranked_desc (demo_rake (vessel_text demo_ship_records ''Aurora''))
   \<and> vessel_text demo_ship_records ''Aurora''
       = ''Fire extinguisher missing. Life jacket expired.''
   \<and> length (demo_rake (vessel_text demo_ship_records ''Aurora'')) = 11
   \<and> vessel_keywords demo_rake demo_ship_records ''Aurora''
       = [''fire extinguisher missing'', ''life jacket expired'', ''oil record'', ''life jacket'',
          ''crew list'', ''rust'', ''pump'', ''hatch'', ''fire'', ''deck'']
   \<and> length (vessel_keywords demo_rake demo_ship_records ''Aurora'') = 10"
proof -
  have h: "ranked_desc (demo_rake (vessel_text demo_ship_records ''Aurora''))"
    by code_simp
  have t: "vessel_text demo_ship_records ''Aurora''
       = ''Fire extinguisher missing. Life jacket expired.''"
    by code_simp
  have n: "length (demo_rake (vessel_text demo_ship_records ''Aurora'')) = 11"
    by code_simp
  have k: "vessel_keywords demo_rake demo_ship_records ''Aurora''
       = [''fire extinguisher missing'', ''life jacket expired'', ''oil record'', ''life jacket'',
          ''crew list'', ''rust'', ''pump'', ''hatch'', ''fire'', ''deck'']"
    by code_simp
  from h vessel_keywords_top10 [of demo_rake demo_ship_records "''Aurora''"]
  have "length (vessel_keywords demo_rake demo_ship_records ''Aurora'')
           = min 10 (length (demo_rake (vessel_text demo_ship_records ''Aurora'')))"
    by blast
  then have l: "length (vessel_keywords demo_rake demo_ship_records ''Aurora'') = 10"
    unfolding n by simp
  from h t n k l show ?thesis
    by (intro conjI)
qed

subsection \<open>The top phrases of the bar chart\<close>







subsection \<open>The phrase search\<close>





text \<open>
  Claim C4 says that for every search string \<open>s\<close> the displayed table holds exactly
  the rows whose Phrase contains \<open>s\<close> as a case-insensitive substring. The script
  passes \<open>s\<close> to \<^verbatim>\<open>str.contains\<close> as a regular expression. With the search term
  \<^verbatim>\<open>.\<close> and the three rows of port Kobe, none of whose phrases contains a full stop,
  the displayed table holds all three rows where the claim gives none; with the search
  term \<^verbatim>\<open>(\<close> the pattern does not compile and the pass ends in \<^verbatim>\<open>re.error\<close>.
\<close>

theorem search_filter_regex_special:
  "search_filter ''.'' (filter_by_authority demo_authority_rows ''Kobe'')
     = Inr (filter_by_authority demo_authority_rows ''Kobe'')
   \<and> length (filter_by_authority demo_authority_rows ''Kobe'') = 3
   \<and> filter (\<lambda>r. ci_substring ''.'' (Phrase r)) (filter_by_authority demo_authority_rows ''Kobe'') = []
   \<and> search_filter ''('' (filter_by_authority demo_authority_rows ''Kobe'') = Inl Re_error"
  by code_simp

subsection \<open>The rendering pass: what the widgets' values reach\<close>



lemma fold_dict_update_nonempty:
  "d \<noteq> [] \<Longrightarrow> fold (\<lambda>(k, v). dict_update k v) items d \<noteq> []"
proof (induction items arbitrary: d)
  case Nil
  then show ?case by simp
next
  case (Cons kv items)
  obtain k v where kv: "kv = (k, v)"
    by (cases kv)
  from Cons.prems have "dict_update k v d \<noteq> []"
    by (cases d) (auto split: if_splits)
  then show ?case
    using Cons.IH kv by simp
qed

lemma dict_empty_iff: "dict items = [] \<longleftrightarrow> items = []"
proof (cases items)
  case Nil
  then show ?thesis by (simp add: dict_def)
next
  case (Cons kv rest)
  obtain k v where kv: "kv = (k, v)"
    by (cases kv)
  have "fold (\<lambda>(k, v). dict_update k v) rest [(k, v)] \<noteq> []"
    by (rule fold_dict_update_nonempty) simp
  then show ?thesis
    by (simp add: dict_def Cons kv)
qed

lemma word_cloud_cases:
  "word_cloud filtered_df =
     (if filtered_df = [] then [St_subheader ''Inspection Word Cloud'', Uncaught Value_error]
      else [St_subheader ''Inspection Word Cloud'',
            St_pyplot (dict (zip (map Phrase filtered_df) (map TF_IDF_Score filtered_df)))])"
  by (simp add: word_cloud_def Let_def dict_empty_iff)

lemma then_run_word_cloud:
  "then_run (word_cloud filtered_df) rest =
     (if filtered_df = [] then word_cloud filtered_df else word_cloud filtered_df @ rest)"
  by (simp add: then_run_def word_cloud_cases)








lemma main_loaded:
  assumes "authority_xlsx env = Inr df" and "ship_xlsx env = Inr ship_df"
  shows "main lib env inp =
     [St_title ''Port Authority Inspection Analytics Dashboard'',
      Read_excel authority_path, Read_excel ship_path] @ render lib df ship_df inp"
  using assms by (simp add: main_def load_authority_data_def load_ship_data_def)





lemma render_date_range: "render lib df ship_df (inp\<lparr>date_range := d\<rparr>) = render lib df ship_df inp"
  by (simp add: render_def Let_def ship_check_def focus_chart_def data_view_def
      split: sum.splits)

text \<open>
  Claim C9. Whatever value the date-range picker returns, the pass is the same: the
  port-filtered subset and everything rendered from it (keyword matches, bar chart,
  word cloud, metrics, table, CSV export) do not depend on the date range, which is
  never used to restrict rows.
\<close>

theorem date_range_unused:
  "main lib env (inp\<lparr>date_range := d\<rparr>) = main lib env (inp\<lparr>date_range := d'\<rparr>)"
  by (simp add: main_def render_date_range split: prod.splits option.splits)

theorem date_range_unused_witness:
  "main demo_lib demo_env (demo_inputs\<lparr>date_range := [19700, 19700]\<rparr>)
     = main demo_lib demo_env (demo_inputs\<lparr>date_range := [19700, 19703]\<rparr>)"
  by (rule date_range_unused)



subsection \<open>The rendering pass: messages and loading\<close>

lemma no_error_sections:
  "St_error e \<notin> set (sidebar_filters df)"
  "St_error e \<notin> set (ship_check lib ship_df filtered_df inp)"
  "St_error e \<notin> set (focus_chart lib filtered_df inp)"
  "St_error e \<notin> set (word_cloud filtered_df)"
  "St_error e \<notin> set (metrics rows filtered_df)"
  "St_error e \<notin> set (data_view lib with_date filtered_df inp)"
  by (simp_all add: sidebar_filters_def ship_check_def focus_chart_def word_cloud_cases
      metrics_def data_view_def Let_def split: sum.splits)

lemma no_error_render: "St_error e \<notin> set (render lib df ship_df inp)"
  by (simp add: render_def Let_def then_run_word_cloud no_error_sections)

lemma no_read_sections:
  "Read_excel p \<notin> set (sidebar_filters df)"
  "Read_excel p \<notin> set (ship_check lib ship_df filtered_df inp)"
  "Read_excel p \<notin> set (focus_chart lib filtered_df inp)"
  "Read_excel p \<notin> set (word_cloud filtered_df)"
  "Read_excel p \<notin> set (metrics rows filtered_df)"
  "Read_excel p \<notin> set (data_view lib with_date filtered_df inp)"
  by (simp_all add: sidebar_filters_def ship_check_def focus_chart_def word_cloud_cases
      metrics_def data_view_def Let_def split: sum.splits)

lemma no_read_render: "count_list (render lib df ship_df inp) (Read_excel p) = 0"
  by (simp add: render_def Let_def then_run_word_cloud no_read_sections count_list_0_iff)

lemma paths_differ: "authority_path \<noteq> ship_path"
  by (simp add: authority_path_def ship_path_def)

lemma vessel_text_all_nil:
  assumes "\<forall>r \<in> set ship_df. Vessel_Name r = Some v \<longrightarrow>
             (\<forall>t. Nature_of_deficiency r = Some t \<longrightarrow> lower t = ''nil'')"
  shows "vessel_text ship_df v = []"
proof -
  have "filter (\<lambda>t. lower t \<noteq> ''nil'') (past_deficiencies (ship_rows ship_df v)) = []"
    using assms unfolding past_deficiencies_ship_rows filter_empty_conv
    by (auto split: option.splits)
  then show ?thesis
    by (simp add: vessel_text_def combined_text_def)
qed

text \<open>
  Claim C6. For a selected vessel all of whose deficiency entries are "nil" (in any
  letter case) or missing, with both columns of the ship table present and both tables
  loaded: the concatenated text is empty; the extractor, which gives no phrase for the
  empty text, leaves no keyword; the ship check consists of its header, the vessel
  selector, the heading, the information message "No relevant deficiencies found." and
  the success message for an empty match table; and the pass reports no error
  (\<^verbatim>\<open>st.error\<close>) anywhere.
\<close>

theorem all_nil_reports_no_deficiencies:
  assumes "has_Vessel_Name ship_df" and "has_Nature_of_deficiency ship_df"
    and "\<forall>r \<in> set (ship_records ship_df). Vessel_Name r = Some (selected_ship inp) \<longrightarrow>
             (\<forall>t. Nature_of_deficiency r = Some t \<longrightarrow> lower t = ''nil'')"
    and "lib_rake lib [] = []"
    and "authority_xlsx env = Inr df" and "ship_xlsx env = Inr ship_df"
  shows "vessel_text (ship_records ship_df) (selected_ship inp) = []
       \<and> vessel_keywords (lib_rake lib) (ship_records ship_df) (selected_ship inp) = []
       \<and> ship_check lib ship_df (filter_by_authority (authority_rows df) (selected_port inp)) inp
           = [St_sidebar_header ''Ship Check'',
              St_sidebar_selectbox ''Select a Ship'' (ships (ship_records ship_df)),
              St_sidebar_markdown ''### Past Issues (Extracted Keywords)'',
              St_sidebar_info ''No relevant deficiencies found.'',
              St_sidebar_success ''No major overlaps found with this port's inspection priorities.'']
       \<and> St_sidebar_info ''No relevant deficiencies found.'' \<in> set (main lib env inp)
       \<and> (\<forall>e. St_error e \<notin> set (main lib env inp))"
proof -
  let ?f = "filter_by_authority (authority_rows df) (selected_port inp)"
  have vt: "vessel_text (ship_records ship_df) (selected_ship inp) = []"
    using assms(3) by (rule vessel_text_all_nil)
  have kws: "vessel_keywords (lib_rake lib) (ship_records ship_df) (selected_ship inp) = []"
    using vt assms(4) by (simp add: vessel_keywords_def vessel_text_def top_keywords_def)
  have sc: "ship_check lib ship_df ?f inp
           = [St_sidebar_header ''Ship Check'',
              St_sidebar_selectbox ''Select a Ship'' (ships (ship_records ship_df)),
              St_sidebar_markdown ''### Past Issues (Extracted Keywords)'',
              St_sidebar_info ''No relevant deficiencies found.'',
              St_sidebar_success ''No major overlaps found with this port's inspection priorities.'']"
    using assms(1,2) by (simp add: ship_check_def kws matched_table_def matched_keywords_def)
  have m: "main lib env inp =
     [St_title ''Port Authority Inspection Analytics Dashboard'',
      Read_excel authority_path, Read_excel ship_path] @ render lib df ship_df inp"
    using assms(5,6) by (rule main_loaded)
  have "St_sidebar_info ''No relevant deficiencies found.'' \<in> set (ship_check lib ship_df ?f inp)"
    unfolding sc by simp
  then have info: "St_sidebar_info ''No relevant deficiencies found.'' \<in> set (main lib env inp)"
    unfolding m by (simp add: render_def Let_def)
  have noerr: "\<forall>e. St_error e \<notin> set (main lib env inp)"
    unfolding m by (simp add: no_error_render)
  from vt kws sc info noerr show ?thesis
    by (intro conjI)
qed

theorem all_nil_reports_no_deficiencies_witness:
  "lib_rake demo_lib [] = []
   \<and> selected_ship demo_inputs = ''Borealis''
   \<and> map Nature_of_deficiency (ship_rows demo_ship_records ''Borealis'') = [Some ''nil'', None]
   \<and> vessel_text demo_ship_records ''Borealis'' = []
   \<and> vessel_keywords demo_rake demo_ship_records ''Borealis'' = []
   \<and> St_sidebar_info ''No relevant deficiencies found.'' \<in> set (main demo_lib demo_env demo_inputs)
   \<and> St_error ''Error loading ship data: '' \<notin> set (main demo_lib demo_env demo_inputs)"
proof -
  let ?sf = "\<lparr>has_Vessel_Name = True, has_Nature_of_deficiency = True,
      ship_records = demo_ship_records\<rparr>"
  let ?af = "\<lparr>has_Date = True, authority_rows = demo_authority_rows\<rparr>"
  have c1: "has_Vessel_Name ?sf" and c2: "has_Nature_of_deficiency ?sf"
    by simp_all
  have sel: "selected_ship demo_inputs = ''Borealis''"
    by (simp add: demo_inputs_def)
  have nil: "\<forall>r \<in> set (ship_records ?sf). Vessel_Name r = Some (selected_ship demo_inputs) \<longrightarrow>
             (\<forall>t. Nature_of_deficiency r = Some t \<longrightarrow> lower t = ''nil'')"
    unfolding sel by (simp add: demo_ship_records_def lower_def lower_char_def)
  have rk: "lib_rake demo_lib [] = []"
    by (simp add: demo_lib_def demo_rake_def)
  have a: "authority_xlsx demo_env = Inr ?af" and b: "ship_xlsx demo_env = Inr ?sf"
    by (simp_all add: demo_env_def)
  have rows: "map Nature_of_deficiency (ship_rows demo_ship_records ''Borealis'') = [Some ''nil'', None]"
    by code_simp
  have lr: "lib_rake demo_lib = demo_rake"
    by (simp add: demo_lib_def)
  note t = all_nil_reports_no_deficiencies [OF c1 c2 nil rk a b]
  from t have "vessel_text (ship_records ?sf) (selected_ship demo_inputs) = []"
    by blast
  then have vt: "vessel_text demo_ship_records ''Borealis'' = []"
    unfolding sel by simp
  from t have "vessel_keywords (lib_rake demo_lib) (ship_records ?sf) (selected_ship demo_inputs) = []"
    by blast
  then have kw: "vessel_keywords demo_rake demo_ship_records ''Borealis'' = []"
    unfolding sel lr by simp
  from t have info: "St_sidebar_info ''No relevant deficiencies found.'' \<in> set (main demo_lib demo_env demo_inputs)"
    by blast
  from t have noerr: "St_error ''Error loading ship data: '' \<notin> set (main demo_lib demo_env demo_inputs)"
    by blast
  from rk sel rows vt kw info noerr show ?thesis
    by (intro conjI)
qed

text \<open>
  Claim C8. Each loader reads its file once and either returns the table, or reports
  the exception with \<^verbatim>\<open>st.error\<close> and returns \<^verbatim>\<open>None\<close>. When either result is
  \<^verbatim>\<open>None\<close> the pass consists of the title, the two reads and the error messages:
  nothing else is rendered. In every pass each file is read exactly once, so a failed
  read is not tried again.
\<close>

theorem load_failure_halts:
  "(case authority_xlsx env of
      Inr df \<Rightarrow> load_authority_data env = ([Read_excel authority_path], Some df)
    | Inl e \<Rightarrow> load_authority_data env
        = ([Read_excel authority_path, St_error (''Error loading authority data: '' @ e)], None))
   \<and> (case ship_xlsx env of
      Inr ship_df \<Rightarrow> load_ship_data env = ([Read_excel ship_path], Some ship_df)
    | Inl e \<Rightarrow> load_ship_data env
        = ([Read_excel ship_path, St_error (''Error loading ship data: '' @ e)], None))
   \<and> (snd (load_authority_data env) = None \<or> snd (load_ship_data env) = None \<longrightarrow>
        main lib env inp
          = [St_title ''Port Authority Inspection Analytics Dashboard'']
            @ fst (load_authority_data env) @ fst (load_ship_data env))
   \<and> count_list (main lib env inp) (Read_excel authority_path) = 1
   \<and> count_list (main lib env inp) (Read_excel ship_path) = 1"
proof -
  have la: "(case authority_xlsx env of
      Inr df \<Rightarrow> load_authority_data env = ([Read_excel authority_path], Some df)
    | Inl e \<Rightarrow> load_authority_data env
        = ([Read_excel authority_path, St_error (''Error loading authority data: '' @ e)], None))"
    by (simp add: load_authority_data_def split: sum.splits)
  have ls: "(case ship_xlsx env of
      Inr ship_df \<Rightarrow> load_ship_data env = ([Read_excel ship_path], Some ship_df)
    | Inl e \<Rightarrow> load_ship_data env
        = ([Read_excel ship_path, St_error (''Error loading ship data: '' @ e)], None))"
    by (simp add: load_ship_data_def split: sum.splits)
  have halt: "snd (load_authority_data env) = None \<or> snd (load_ship_data env) = None \<longrightarrow>
        main lib env inp
          = [St_title ''Port Authority Inspection Analytics Dashboard'']
            @ fst (load_authority_data env) @ fst (load_ship_data env)"
    by (auto simp: main_def split: prod.splits option.splits)
  have ca: "count_list (main lib env inp) (Read_excel authority_path) = 1"
    using paths_differ
    by (simp add: main_def load_authority_data_def load_ship_data_def no_read_render
        split: sum.splits)
  have cs: "count_list (main lib env inp) (Read_excel ship_path) = 1"
    using paths_differ
    by (simp add: main_def load_authority_data_def load_ship_data_def no_read_render
        split: sum.splits)
  from la ls halt ca cs show ?thesis
    by (intro conjI)
qed

theorem load_failure_halts_witness:
  "snd (load_authority_data (demo_env\<lparr>authority_xlsx := Inl ''No such file''\<rparr>)) = None
   \<and> main demo_lib (demo_env\<lparr>authority_xlsx := Inl ''No such file''\<rparr>) demo_inputs
       = [St_title ''Port Authority Inspection Analytics Dashboard'',
          Read_excel authority_path,
          St_error ''Error loading authority data: No such file'',
          Read_excel ship_path]
   \<and> count_list (main demo_lib demo_env demo_inputs) (Read_excel authority_path) = 1"
proof -
  let ?env = "demo_env\<lparr>authority_xlsx := Inl ''No such file''\<rparr>"
  have a: "load_authority_data ?env
      = ([Read_excel authority_path, St_error ''Error loading authority data: No such file''], None)"
    by (simp add: load_authority_data_def)
  have s: "load_ship_data ?env = ([Read_excel ship_path], Some \<lparr>has_Vessel_Name = True,
      has_Nature_of_deficiency = True, ship_records = demo_ship_records\<rparr>)"
    by (simp add: load_ship_data_def demo_env_def)
  have n: "snd (load_authority_data ?env) = None"
    unfolding a by simp
  from n load_failure_halts [of ?env demo_lib demo_inputs]
  have "main demo_lib ?env demo_inputs
          = [St_title ''Port Authority Inspection Analytics Dashboard'']
            @ fst (load_authority_data ?env) @ fst (load_ship_data ?env)"
    by blast
  then have m: "main demo_lib ?env demo_inputs
       = [St_title ''Port Authority Inspection Analytics Dashboard'',
          Read_excel authority_path,
          St_error ''Error loading authority data: No such file'',
          Read_excel ship_path]"
    unfolding a s by simp
  from load_failure_halts [of demo_env demo_lib demo_inputs]
  have c: "count_list (main demo_lib demo_env demo_inputs) (Read_excel authority_path) = 1"
    by blast
  from n m c show ?thesis
    by (intro conjI)
qed

subsection \<open>The CSV export\<close>


lemma csv_step_outside:
  assumes "m \<noteq> In_quoted"
  shows "csv_step (m, field, row, rows) c =
     (if c = CHR '','' then (Field_start, [], row @ [field], rows)
      else if c = CHR 0x0A \<or> c = CHR 0x0D then
        (if m = Line_start then (Line_start, [], [], rows)
         else (Line_start, [], [], rows @ [row @ [field]]))
      else if c = CHR 0x22 then
        (if m = Line_start \<or> m = Field_start then (In_quoted, [], row, rows)
         else if m = Quote_seen then (In_quoted, field @ [c], row, rows)
         else (In_unquoted, field @ [c], row, rows))
      else (In_unquoted, field @ [c], row, rows))"
  using assms by (cases m) simp_all










end
